theory Spec2Isabelle
  imports Main "HOL-Library.Word"
begin

unbundle bit_operations_syntax

section \<open>The TCP output path over 6LoWPAN and the kernel heap membership test\<close>

text \<open>
  A shallow embedding of \<^verbatim>\<open>net/sixlowpan/sixlowpan_tcpsend.c\<close> and of
  \<^verbatim>\<open>mm/kmm_heap/kmm_heapmember.c\<close>. Pointers that the code compares with
  \<^verbatim>\<open>NULL\<close> are options, every way a call can end is a constructor of
  \<open>outcome\<close>, and what a call does besides returning (log statements, calls into
  other subsystems, writes of the socket state) is listed in order in a trace.
  The first file is compiled when \<^verbatim>\<open>CONFIG_NET_6LOWPAN\<close> and
  \<^verbatim>\<open>CONFIG_NET_TCP\<close> are set, the second when
  \<^verbatim>\<open>CONFIG_MM_KERNEL_HEAP\<close> is; the model is of the code so compiled.
\<close>

subsection \<open>Data\<close>

type_synonym net_ipv6addr_t = "16 word list"
type_synonym rimeaddr_s = "8 word list"

record tcp_conn_s =
  domain :: "8 word"
  laddr :: net_ipv6addr_t
  raddr :: net_ipv6addr_t

text \<open>
  The fields of \<^verbatim>\<open>struct socket\<close> that the send path reads or writes.
  \<open>s_crefs\<close> is a signed count that the code only compares with zero.
\<close>

record socket =
  s_crefs :: int
  s_type :: "8 word"
  s_flags :: "8 word"
  s_sndtimeo :: "16 word"
  s_conn :: "tcp_conn_s option"

text \<open>
  The fields of \<^verbatim>\<open>struct net_driver_s\<close> that the two paths use:
  \<open>d_len\<close> is the unsigned 16-bit valid length of the transmit buffer \<open>d_buf\<close>.
\<close>

record net_driver_s =
  d_lltype :: "8 word"
  d_len :: nat
  d_buf :: "8 word list"

subsection \<open>What the included headers define\<close>

text \<open>
  The configuration switches of \<^verbatim>\<open>nuttx/config.h\<close> that the two files test.
  \<open>CONFIG_DEBUG_ASSERTIONS\<close> says whether \<^verbatim>\<open>DEBUGASSERT\<close> checks its
  argument or expands to nothing.
\<close>

record config =
  CONFIG_DEBUG_ASSERTIONS :: bool
  CONFIG_NET_IPv4 :: bool
  CONFIG_NETDEV_MULTINIC :: bool
  CONFIG_NETDEV_MULTILINK :: bool
  CONFIG_NET_ICMPv6_NEIGHBOR :: bool
  CONFIG_NET_SOCKOPTS :: bool

text \<open>
  The constants, macros and structure layouts that the code takes from headers which are
  not among the source files. They are parameters: every theorem below holds for all
  values of them, except where a hypothesis says otherwise. \<open>SIZE_BITS\<close> is the
  width of \<^verbatim>\<open>size_t\<close>; \<open>ipv6_proto\<close> and \<open>ipv6_destipaddr\<close> read the
  fields \<^verbatim>\<open>proto\<close> and \<^verbatim>\<open>destipaddr\<close> of the
  \<^verbatim>\<open>struct ipv6_hdr_s\<close> that lies at the start of a buffer.
\<close>

record hdrs =
  EBADF :: int
  ENOTCONN :: int
  EPROTOTYPE :: int
  ENETUNREACH :: int
  SOCK_STREAM :: "8 word"
  PF_INET6 :: "8 word"
  NET_LL_IEEE802154 :: "8 word"
  IP_PROTO_TCP :: "8 word"
  IPv6_HDRLEN :: nat
  TCP_HDRLEN :: nat
  SIZE_BITS :: nat
  SF_IDLE :: "8 word"
  SF_SEND :: "8 word"
  SS_SETSTATE :: "8 word \<Rightarrow> 8 word \<Rightarrow> 8 word"
  SS_GETSTATE :: "8 word \<Rightarrow> 8 word"
  SS_ISCONNECTED :: "8 word \<Rightarrow> bool"
  ipv6_proto :: "8 word list \<Rightarrow> 8 word"
  ipv6_destipaddr :: "8 word list \<Rightarrow> net_ipv6addr_t"

text \<open>
  The functions of other subsystems that the two paths call.
  \<open>netdev_findby_ipv6addr\<close> gets the list of its address arguments (local and remote
  with \<open>CONFIG_NETDEV_MULTINIC\<close>, the remote address alone without).
  \<open>sixlowpan_rimefromip\<close> only computes its out-parameter, so it is a function here
  and leaves nothing in the trace. \<open>sixlowpan_send\<close> gets the device, the user
  buffer, its length, the destination and the timeout; its header argument points to the
  local \<^verbatim>\<open>ipv6tcp\<close>, which the code never writes, and is left out.
  \<open>sixlowpan_queue_frames\<close> gets the device, the offset of the payload in
  \<open>d_buf\<close>, the payload length and the destination, and returns its result together
  with the device as it leaves it.
\<close>

record env =
  netdev_findby_ipv6addr :: "net_ipv6addr_t list \<Rightarrow> net_driver_s option"
  icmpv6_neighbor :: "net_ipv6addr_t \<Rightarrow> int"
  sixlowpan_rimefromip :: "net_ipv6addr_t \<Rightarrow> rimeaddr_s"
  sixlowpan_send :: "net_driver_s \<Rightarrow> 8 word list \<Rightarrow> nat \<Rightarrow> rimeaddr_s \<Rightarrow> 16 word \<Rightarrow> int"
  sixlowpan_queue_frames :: "net_driver_s \<Rightarrow> nat \<Rightarrow> nat \<Rightarrow> rimeaddr_s \<Rightarrow> int \<times> net_driver_s"

subsection \<open>Traces and outcomes\<close>

text \<open>
  \<open>Set_sockstate f\<close> is the statement
  \<^verbatim>\<open>psock->s_flags = _SS_SETSTATE(psock->s_flags, f)\<close>.
  The log events carry the format string of the statement without its line feed.
\<close>

datatype event =
    Nerr string
  | Nwarn string
  | Call_netdev_findby_ipv6addr "net_ipv6addr_t list"
  | Call_icmpv6_neighbor net_ipv6addr_t
  | Set_sockstate "8 word"
  | Call_sixlowpan_send net_driver_s "8 word list" nat rimeaddr_s "16 word"
  | Call_sixlowpan_queue_frames net_driver_s nat nat rimeaddr_s

datatype 'a outcome =
    Returned 'a
  | Assertion_failed
  | Null_dereference

subsection \<open>\<^verbatim>\<open>psock_6lowpan_tcp_send\<close>\<close>

text \<open>
  Lines 103 to 197 of the function: what it does with the socket \<open>psock\<close> points to
  once the check of the handle at line 97 has let the call through.
\<close>

definition psock_6lowpan_tcp_send_checked ::
  "config \<Rightarrow> hdrs \<Rightarrow> env \<Rightarrow> socket \<Rightarrow> 8 word list \<Rightarrow> nat \<Rightarrow> (int \<times> socket \<times> event list) outcome" where
  "psock_6lowpan_tcp_send_checked cfg h e psock buf len =
    (if s_type psock \<noteq> SOCK_STREAM h \<or> \<not> SS_ISCONNECTED h (s_flags psock)
     then Returned (- ENOTCONN h, psock, [Nerr ''ERROR: Not connected''])
     else case s_conn psock of
       None \<Rightarrow> if CONFIG_DEBUG_ASSERTIONS cfg then Assertion_failed else Null_dereference
     | Some conn \<Rightarrow>
        if CONFIG_NET_IPv4 cfg \<and> domain conn \<noteq> PF_INET6 h
        then Returned (- EPROTOTYPE h, psock, [Nwarn ''WARNING: Not IPv6''])
        else
          let addrs = (if CONFIG_NETDEV_MULTINIC cfg then [laddr conn, raddr conn] else [raddr conn]);
              unroutable = (if CONFIG_NETDEV_MULTINIC cfg
                            then ''WARNING: Not routable or not IEEE802.15.4 MAC''
                            else ''WARNING: Not routable'');
              t1 = [Call_netdev_findby_ipv6addr addrs]
          in case netdev_findby_ipv6addr e addrs of
            None \<Rightarrow> Returned (- ENETUNREACH h, psock, t1 @ [Nwarn unroutable])
          | Some dev \<Rightarrow>
             if CONFIG_NETDEV_MULTILINK cfg \<and> d_lltype dev \<noteq> NET_LL_IEEE802154 h
             then Returned (- ENETUNREACH h, psock, t1 @ [Nwarn unroutable])
             else if CONFIG_NET_ICMPv6_NEIGHBOR cfg \<and> icmpv6_neighbor e (raddr conn) < 0
             then Returned (- ENETUNREACH h, psock,
                    t1 @ [Call_icmpv6_neighbor (raddr conn), Nerr ''ERROR: Not reachable''])
             else
               let t2 = t1 @ (if CONFIG_NET_ICMPv6_NEIGHBOR cfg
                              then [Call_icmpv6_neighbor (raddr conn)] else []);
                   flags1 = SS_SETSTATE h (s_flags psock) (SF_SEND h);
                   destmac = sixlowpan_rimefromip e (raddr conn);
                   timeout = (if CONFIG_NET_SOCKOPTS cfg then s_sndtimeo psock else 0);
                   ret = sixlowpan_send e dev buf len destmac timeout;
                   t3 = t2 @ [Set_sockstate (SF_SEND h),
                              Call_sixlowpan_send dev buf len destmac timeout]
                           @ (if ret < 0 then [Nerr ''ERROR: sixlowpan_send() failed: %d''] else []);
                   flags2 = SS_SETSTATE h flags1 (SF_IDLE h)
               in Returned (ret, psock\<lparr>s_flags := flags2\<rparr>, t3 @ [Set_sockstate (SF_IDLE h)]))"

text \<open>
  The whole function. With a null \<open>psock\<close> the first assertion fails when assertions
  are compiled in; when they are not, the left operand of \<^verbatim>\<open>||\<close> at line 97 is
  false and the right operand reads \<^verbatim>\<open>psock->s_crefs\<close> through the null
  pointer. With a socket behind \<open>psock\<close> the condition of line 97 is written as the
  code has it.
\<close>

definition psock_6lowpan_tcp_send ::
  "config \<Rightarrow> hdrs \<Rightarrow> env \<Rightarrow> socket option \<Rightarrow> 8 word list \<Rightarrow> nat \<Rightarrow> (int \<times> socket \<times> event list) outcome" where
  "psock_6lowpan_tcp_send cfg h e psock buf len =
    (case psock of
       None \<Rightarrow> if CONFIG_DEBUG_ASSERTIONS cfg then Assertion_failed else Null_dereference
     | Some s \<Rightarrow>
        if CONFIG_DEBUG_ASSERTIONS cfg \<and> \<not> (psock \<noteq> None \<and> 0 < s_crefs s) then Assertion_failed
        else if CONFIG_DEBUG_ASSERTIONS cfg \<and> \<not> (s_type s = SOCK_STREAM h) then Assertion_failed
        else if psock \<noteq> None \<or> s_crefs s \<le> 0
        then Returned (- EBADF h, s, [Nerr ''ERROR: Invalid socket''])
        else psock_6lowpan_tcp_send_checked cfg h e s buf len)"

subsection \<open>\<^verbatim>\<open>sixlowpan_tcp_send\<close>\<close>

text \<open>
  \<open>size_sub h a b\<close> is \<^verbatim>\<open>a - b\<close> computed in \<^verbatim>\<open>size_t\<close>: it wraps
  around below zero.
\<close>

definition size_sub :: "hdrs \<Rightarrow> nat \<Rightarrow> nat \<Rightarrow> nat" where
  "size_sub h a b = nat ((int a - int b) mod 2 ^ SIZE_BITS h)"

text \<open>
  The function returns nothing; the model returns the device as the call leaves it and
  the trace. With a null \<open>dev\<close> and assertions compiled out the guarded block is
  skipped and line 278 writes \<^verbatim>\<open>dev->d_len\<close> through the null pointer.
\<close>

definition sixlowpan_tcp_send ::
  "config \<Rightarrow> hdrs \<Rightarrow> env \<Rightarrow> net_driver_s option \<Rightarrow> (net_driver_s \<times> event list) outcome" where
  "sixlowpan_tcp_send cfg h e dev =
    (case dev of
       None \<Rightarrow> if CONFIG_DEBUG_ASSERTIONS cfg then Assertion_failed else Null_dereference
     | Some d \<Rightarrow>
        if CONFIG_DEBUG_ASSERTIONS cfg \<and> \<not> (dev \<noteq> None \<and> 0 < d_len d) then Assertion_failed
        else
          let (d1, t) =
            (if dev \<noteq> None \<and> 0 < d_len d
             then
               if ipv6_proto h (d_buf d) \<noteq> IP_PROTO_TCP h
               then (d, [Nwarn ''WARNING: Expected TCP protoype: %u''])
               else
                 let hdrlen = IPv6_HDRLEN h + TCP_HDRLEN h
                 in if hdrlen < d_len d
                    then (d, [Nwarn ''WARNING: Packet to small:  Have %u need >%u''])
                    else
                      let destmac = sixlowpan_rimefromip e (ipv6_destipaddr h (d_buf d));
                          paylen = size_sub h (d_len d) hdrlen
                      in (snd (sixlowpan_queue_frames e d hdrlen paylen destmac),
                          [Call_sixlowpan_queue_frames d hdrlen paylen destmac])
             else (d, []))
          in Returned (d1\<lparr>d_len := 0\<rparr>, t))"

subsection \<open>\<^verbatim>\<open>kmm_heapmember\<close>\<close>

text \<open>
  The globals of the memory manager: the kernel heap \<^verbatim>\<open>g_kmmheap\<close> and the
  user heap \<^verbatim>\<open>g_mmheap\<close>, of a type \<open>'heap\<close> that stands for
  \<^verbatim>\<open>struct mm_heap_s\<close>. \<^verbatim>\<open>mm_heapmember\<close> is not among the source
  files and is a parameter: a predicate on a heap and an address.
\<close>

record 'heap mm_globals =
  g_kmmheap :: 'heap
  g_mmheap :: 'heap

definition kmm_heapmember :: "('heap \<Rightarrow> 'addr \<Rightarrow> bool) \<Rightarrow> 'heap mm_globals \<Rightarrow> 'addr \<Rightarrow> bool" where
  "kmm_heapmember mm_heapmember g mem = mm_heapmember (g_kmmheap g) mem"

subsection \<open>An instance of the parameters\<close>

text \<open>
  One choice of values, on which the examples below run the code: the usual numbers of
  the error codes, a \<^verbatim>\<open>size_t\<close> of 32 bits, the state of a socket in bits 0 and
  1 of its flags and bit 6 for a connected socket, and the IPv6 header of RFC 2460, whose
  next-header field is byte 6 and whose destination address is bytes 24 to 39. No theorem
  with free parameters depends on this choice.
\<close>

definition word_of_bytes :: "8 word \<Rightarrow> 8 word \<Rightarrow> 16 word" where
  "word_of_bytes hi lo = push_bit 8 (ucast hi) OR ucast lo"

fun words_of_bytes :: "8 word list \<Rightarrow> 16 word list" where
  "words_of_bytes (hi # lo # bs) = word_of_bytes hi lo # words_of_bytes bs"
| "words_of_bytes bs = []"

definition hdrs0 :: hdrs where
  "hdrs0 = \<lparr>
     EBADF = 9, ENOTCONN = 107, EPROTOTYPE = 91, ENETUNREACH = 101,
     SOCK_STREAM = 1, PF_INET6 = 10, NET_LL_IEEE802154 = 4, IP_PROTO_TCP = 6,
     IPv6_HDRLEN = 40, TCP_HDRLEN = 20, SIZE_BITS = 32,
     SF_IDLE = 0, SF_SEND = 3,
     SS_SETSTATE = (\<lambda>s f. (s AND NOT 3) OR f),
     SS_GETSTATE = (\<lambda>s. s AND 3),
     SS_ISCONNECTED = (\<lambda>s. s AND 64 \<noteq> 0),
     ipv6_proto = (\<lambda>b. if 6 < length b then b ! 6 else 0),
     ipv6_destipaddr = (\<lambda>b. words_of_bytes (take 16 (drop 24 b))) \<rparr>"

definition cfg_release :: config where
  "cfg_release = \<lparr> CONFIG_DEBUG_ASSERTIONS = False, CONFIG_NET_IPv4 = False,
     CONFIG_NETDEV_MULTINIC = False, CONFIG_NETDEV_MULTILINK = False,
     CONFIG_NET_ICMPv6_NEIGHBOR = False, CONFIG_NET_SOCKOPTS = False \<rparr>"

definition cfg_debug :: config where
  "cfg_debug = cfg_release \<lparr> CONFIG_DEBUG_ASSERTIONS := True \<rparr>"

text \<open>
  A device whose buffer of 100 bytes starts with an IPv6 header that declares TCP and is
  addressed to \<open>fe80::2\<close>; no byte of it is valid yet.
\<close>

definition dev0 :: net_driver_s where
  "dev0 = \<lparr> d_lltype = 4, d_len = 0, d_buf =
     [96, 0, 0, 0, 0, 20, 6, 64,
      254, 128, 0, 0, 0, 0, 0, 0, 0, 0, 0, 0, 0, 0, 0, 1,
      254, 128, 0, 0, 0, 0, 0, 0, 0, 0, 0, 0, 0, 0, 0, 2,
      0, 0, 0, 0, 0, 0, 0, 0, 0, 0, 0, 0, 0, 0, 0, 0, 0, 0, 0, 0,
      0, 0, 0, 0, 0, 0, 0, 0, 0, 0, 0, 0, 0, 0, 0, 0, 0, 0, 0, 0,
      0, 0, 0, 0, 0, 0, 0, 0, 0, 0, 0, 0, 0, 0, 0, 0, 0, 0, 0, 0] \<rparr>"

text \<open>
  One device that every address is routed to, every neighbour reachable, a dispatcher
  that accepts all it is given and, on the other path, queues the frames and leaves the
  device as it is.
\<close>

definition env0 :: env where
  "env0 = \<lparr>
     netdev_findby_ipv6addr = (\<lambda>_. Some dev0),
     icmpv6_neighbor = (\<lambda>_. 0),
     sixlowpan_rimefromip = (\<lambda>a. [ucast (last a)]),
     sixlowpan_send = (\<lambda>_ _ n _ _. int n),
     sixlowpan_queue_frames = (\<lambda>d _ _ _. (0, d)) \<rparr>"

definition conn0 :: tcp_conn_s where
  "conn0 = \<lparr> domain = 10, laddr = [65152, 0, 0, 0, 0, 0, 0, 1],
     raddr = [65152, 0, 0, 0, 0, 0, 0, 2] \<rparr>"

text \<open>A referenced, connected stream socket whose send state is idle.\<close>

definition sock0 :: socket where
  "sock0 = \<lparr> s_crefs = 1, s_type = 1, s_flags = 64, s_sndtimeo = 0, s_conn = Some conn0 \<rparr>"

subsection \<open>Notions the properties are stated with\<close>

text \<open>The send state of a socket is idle.\<close>

definition send_idle :: "hdrs \<Rightarrow> socket \<Rightarrow> bool" where
  "send_idle h s = (SS_GETSTATE h (s_flags s) = SF_IDLE h)"

text \<open>
  The calls by which lines 126 to 161 find the device and confirm the neighbour, as they
  stand in the trace of a call that got past them.
\<close>

definition lookup_events :: "config \<Rightarrow> tcp_conn_s \<Rightarrow> event list" where
  "lookup_events cfg conn =
     Call_netdev_findby_ipv6addr
       (if CONFIG_NETDEV_MULTINIC cfg then [laddr conn, raddr conn] else [raddr conn])
     # (if CONFIG_NET_ICMPv6_NEIGHBOR cfg then [Call_icmpv6_neighbor (raddr conn)] else [])"

text \<open>The value a call returned, if it returned.\<close>

definition return_value :: "(int \<times> socket \<times> event list) outcome \<Rightarrow> int option" where
  "return_value out = (case out of Returned (r, s, t) \<Rightarrow> Some r | _ \<Rightarrow> None)"

section \<open>Properties\<close>

lemmas ex_defs =
  hdrs0_def cfg_release_def cfg_debug_def dev0_def env0_def conn0_def sock0_def word_of_bytes_def

subsection \<open>Two facts about the socket path that several properties rest on\<close>

text \<open>
  Whenever \<open>psock_6lowpan_tcp_send\<close> returns, it returns from line 100: the socket is
  the one passed in, the value is \<open>- EBADF\<close> and the only event is the log statement.
\<close>

lemma psock_6lowpan_tcp_send_returns:
  assumes "psock_6lowpan_tcp_send cfg h e p buf len = Returned (r, s', t)"
  shows "p = Some s' \<and> r = - EBADF h \<and> t = [Nerr ''ERROR: Invalid socket'']"
  using assms unfolding psock_6lowpan_tcp_send_def
  by (auto split: option.splits if_splits)

text \<open>
  Lines 103 to 197 return in one of two ways: from one of the error returns, with the
  socket untouched and neither a write of the state nor a call of the dispatcher in the
  trace; or from line 196, after routing has succeeded, with the dispatcher's result.
\<close>

lemma checked_error_or_dispatch:
  assumes "psock_6lowpan_tcp_send_checked cfg h e s buf len = Returned (r, s', t)"
  shows "(s' = s \<and> (\<forall>f. Set_sockstate f \<notin> set t)
            \<and> (\<forall>d b n m tmo. Call_sixlowpan_send d b n m tmo \<notin> set t))
       \<or> (\<exists>conn dev.
            s_conn s = Some conn
          \<and> netdev_findby_ipv6addr e
               (if CONFIG_NETDEV_MULTINIC cfg then [laddr conn, raddr conn] else [raddr conn]) = Some dev
          \<and> (CONFIG_NETDEV_MULTILINK cfg \<longrightarrow> d_lltype dev = NET_LL_IEEE802154 h)
          \<and> (CONFIG_NET_ICMPv6_NEIGHBOR cfg \<longrightarrow> 0 \<le> icmpv6_neighbor e (raddr conn))
          \<and> r = sixlowpan_send e dev buf len (sixlowpan_rimefromip e (raddr conn))
                  (if CONFIG_NET_SOCKOPTS cfg then s_sndtimeo s else 0)
          \<and> s' = s\<lparr>s_flags := SS_SETSTATE h (SS_SETSTATE h (s_flags s) (SF_SEND h)) (SF_IDLE h)\<rparr>
          \<and> t = lookup_events cfg conn
                 @ [Set_sockstate (SF_SEND h),
                    Call_sixlowpan_send dev buf len (sixlowpan_rimefromip e (raddr conn))
                      (if CONFIG_NET_SOCKOPTS cfg then s_sndtimeo s else 0)]
                 @ (if r < 0 then [Nerr ''ERROR: sixlowpan_send() failed: %d''] else [])
                 @ [Set_sockstate (SF_IDLE h)])"
  using assms unfolding psock_6lowpan_tcp_send_checked_def lookup_events_def Let_def
  by (auto split: if_splits option.splits)

text \<open>The example socket on the example configuration, past the check of the handle.\<close>

lemma checked_sock0:
  "psock_6lowpan_tcp_send_checked cfg_release hdrs0 env0 sock0 [7, 7] 2 =
     Returned (2, sock0,
       [Call_netdev_findby_ipv6addr [raddr conn0],
        Set_sockstate 3,
        Call_sixlowpan_send dev0 [7, 7] 2 [2] 0,
        Set_sockstate 0])"
  by (simp add: psock_6lowpan_tcp_send_checked_def ex_defs)

lemma hdrs0_idle_law:
  "\<forall>f. SS_GETSTATE hdrs0 (SS_SETSTATE hdrs0 f (SF_IDLE hdrs0)) = SF_IDLE hdrs0"
  by (simp add: hdrs0_def word_bw_assocs)

subsection \<open>The check of the socket handle\<close>

text \<open>
  C1. Stated: \<open>psock_6lowpan_tcp_send\<close> returns \<open>- EBADF\<close> exactly when the socket
  is null or its reference count is not positive, and never for a non-null socket with a
  positive count. The code does otherwise, because line 97 tests
  \<^verbatim>\<open>psock != NULL\<close> where the comment above it and the assertion of line 92 ask
  for a null test. At a referenced, connected stream socket, with assertions compiled
  in, the call returns \<open>- EBADF\<close> from line 100. At a null socket, with assertions
  compiled out, the call reads \<^verbatim>\<open>psock->s_crefs\<close> through the null pointer
  instead of returning.
\<close>

theorem valid_socket_gets_EBADF:
  "psock_6lowpan_tcp_send cfg_debug hdrs0 env0 (Some sock0) [7, 7] 2 =
     Returned (- EBADF hdrs0, sock0, [Nerr ''ERROR: Invalid socket''])
   \<and> psock_6lowpan_tcp_send cfg_release hdrs0 env0 None [7, 7] 2 = Null_dereference"
  by (simp add: psock_6lowpan_tcp_send_def ex_defs)

text \<open>The socket of that call is referenced, and the value returned is \<open>-9\<close>.\<close>

theorem valid_socket_gets_EBADF_witness:
  "0 < s_crefs sock0
   \<and> return_value (psock_6lowpan_tcp_send cfg_debug hdrs0 env0 (Some sock0) [7, 7] 2)
       = Some (- 9)
   \<and> return_value (psock_6lowpan_tcp_send cfg_release hdrs0 env0 None [7, 7] 2) = None"
  using valid_socket_gets_EBADF
  by (simp add: return_value_def sock0_def hdrs0_def)

text \<open>
  C2. For every non-null socket that meets the precondition asserted at lines 92 and 93,
  a positive reference count on a stream socket, \<open>psock_6lowpan_tcp_send\<close> returns
  \<open>- EBADF\<close> at once, in every configuration: the socket is returned as it was
  passed, send state included, and the trace holds the log statement alone, so there is
  no device lookup and no call of the dispatcher.
\<close>

theorem referenced_socket_gets_EBADF:
  assumes "0 < s_crefs s"
      and "s_type s = SOCK_STREAM h"
  shows "psock_6lowpan_tcp_send cfg h e (Some s) buf len =
           Returned (- EBADF h, s, [Nerr ''ERROR: Invalid socket''])"
  using assms by (simp add: psock_6lowpan_tcp_send_def)

text \<open>At the example socket, with assertions compiled in and compiled out.\<close>

theorem referenced_socket_gets_EBADF_witness:
  "0 < s_crefs sock0
   \<and> s_type sock0 = SOCK_STREAM hdrs0
   \<and> psock_6lowpan_tcp_send cfg_debug hdrs0 env0 (Some sock0) [7, 7] 2 =
       Returned (- 9, sock0, [Nerr ''ERROR: Invalid socket''])
   \<and> psock_6lowpan_tcp_send cfg_release hdrs0 env0 (Some sock0) [7, 7] 2 =
       Returned (- 9, sock0, [Nerr ''ERROR: Invalid socket''])"
proof -
  have refs: "0 < s_crefs sock0"
    by (simp add: sock0_def)
  have stream: "s_type sock0 = SOCK_STREAM hdrs0"
    by (simp add: sock0_def hdrs0_def)
  have "psock_6lowpan_tcp_send cfg hdrs0 env0 (Some sock0) [7, 7] 2 =
          Returned (- EBADF hdrs0, sock0, [Nerr ''ERROR: Invalid socket''])" for cfg
    using refs stream by (rule referenced_socket_gets_EBADF)
  with refs stream show ?thesis
    by (simp add: hdrs0_def)
qed

text \<open>
  C4. Stated: for every socket that is not a stream socket or is not connected,
  \<open>psock_6lowpan_tcp_send\<close> returns \<open>- ENOTCONN\<close> without a device lookup or a
  call of the dispatcher. The code at a referenced stream socket that is not connected:
  the call returns from line 100 with \<open>- EBADF\<close>, and the test of line 105 is never
  reached.
\<close>

theorem unconnected_socket_gets_EBADF:
  "psock_6lowpan_tcp_send cfg_release hdrs0 env0 (Some (sock0\<lparr>s_flags := 0\<rparr>)) [7, 7] 2 =
     Returned (- EBADF hdrs0, sock0\<lparr>s_flags := 0\<rparr>, [Nerr ''ERROR: Invalid socket''])"
  by (simp add: psock_6lowpan_tcp_send_def ex_defs)

text \<open>The socket of that call is not connected, and the value returned is not \<open>- ENOTCONN\<close>.\<close>

theorem unconnected_socket_gets_EBADF_witness:
  "\<not> SS_ISCONNECTED hdrs0 (s_flags (sock0\<lparr>s_flags := 0\<rparr>))
   \<and> return_value
        (psock_6lowpan_tcp_send cfg_release hdrs0 env0 (Some (sock0\<lparr>s_flags := 0\<rparr>)) [7, 7] 2)
       = Some (- 9)
   \<and> - 9 \<noteq> - ENOTCONN hdrs0"
  using unconnected_socket_gets_EBADF
  by (simp add: return_value_def hdrs0_def)

subsection \<open>The send state and the call of the dispatcher\<close>

text \<open>
  C5. Every call of \<open>psock_6lowpan_tcp_send\<close> that starts with the send state idle
  and returns leaves it idle; the state is set to sending only after routing has
  succeeded, and the call of the dispatcher is the next event after that write.
  The first half of the statement is about the function as a whole, which returns from
  line 100 and never writes the state. The second half is about lines 103 to 197, on
  every socket, where the write of line 168 is: there the trace of a call that sets the
  state to sending is the lookups that succeeded, the write, the call of
  \<open>sixlowpan_send\<close>, and a rest without such a write (it ends with the write of idle at
  line 195). The two hypotheses on the macros say that reading the state after setting it
  to idle gives idle, and that sending and idle are two states.
\<close>

theorem send_state_idle_after_send:
  assumes law: "\<forall>f. SS_GETSTATE h (SS_SETSTATE h f (SF_IDLE h)) = SF_IDLE h"
      and two: "SF_SEND h \<noteq> SF_IDLE h"
      and idle: "send_idle h s"
  shows "(\<forall>r s' t. psock_6lowpan_tcp_send cfg h e (Some s) buf len = Returned (r, s', t) \<longrightarrow>
            send_idle h s' \<and> Set_sockstate (SF_SEND h) \<notin> set t)
       \<and> (\<forall>r s' t. psock_6lowpan_tcp_send_checked cfg h e s buf len = Returned (r, s', t) \<longrightarrow>
            send_idle h s' \<and>
            (Set_sockstate (SF_SEND h) \<in> set t \<longrightarrow>
              (\<exists>conn dev mac tmo post.
                  s_conn s = Some conn
                \<and> netdev_findby_ipv6addr e
                     (if CONFIG_NETDEV_MULTINIC cfg then [laddr conn, raddr conn] else [raddr conn])
                     = Some dev
                \<and> (CONFIG_NETDEV_MULTILINK cfg \<longrightarrow> d_lltype dev = NET_LL_IEEE802154 h)
                \<and> (CONFIG_NET_ICMPv6_NEIGHBOR cfg \<longrightarrow> 0 \<le> icmpv6_neighbor e (raddr conn))
                \<and> t = lookup_events cfg conn
                       @ [Set_sockstate (SF_SEND h), Call_sixlowpan_send dev buf len mac tmo]
                       @ post
                \<and> Set_sockstate (SF_SEND h) \<notin> set (lookup_events cfg conn)
                \<and> Set_sockstate (SF_SEND h) \<notin> set post)))"
proof (intro conjI allI impI)
  fix r s' t
  assume "psock_6lowpan_tcp_send cfg h e (Some s) buf len = Returned (r, s', t)"
  from psock_6lowpan_tcp_send_returns [OF this]
  have "s' = s" and "t = [Nerr ''ERROR: Invalid socket'']"
    by simp_all
  with idle show "send_idle h s'" and "Set_sockstate (SF_SEND h) \<notin> set t"
    by simp_all
next
  fix r s' t
  assume ret: "psock_6lowpan_tcp_send_checked cfg h e s buf len = Returned (r, s', t)"
  from checked_error_or_dispatch [OF ret] law idle
  show "send_idle h s'"
    by (auto simp: send_idle_def)
next
  fix r s' t
  assume ret: "psock_6lowpan_tcp_send_checked cfg h e s buf len = Returned (r, s', t)"
     and sending: "Set_sockstate (SF_SEND h) \<in> set t"
  from checked_error_or_dispatch [OF ret] sending
  obtain conn dev where
        c: "s_conn s = Some conn"
    and d: "netdev_findby_ipv6addr e
              (if CONFIG_NETDEV_MULTINIC cfg then [laddr conn, raddr conn] else [raddr conn])
              = Some dev"
    and l: "CONFIG_NETDEV_MULTILINK cfg \<longrightarrow> d_lltype dev = NET_LL_IEEE802154 h"
    and n: "CONFIG_NET_ICMPv6_NEIGHBOR cfg \<longrightarrow> 0 \<le> icmpv6_neighbor e (raddr conn)"
    and t: "t = lookup_events cfg conn
                 @ [Set_sockstate (SF_SEND h),
                    Call_sixlowpan_send dev buf len (sixlowpan_rimefromip e (raddr conn))
                      (if CONFIG_NET_SOCKOPTS cfg then s_sndtimeo s else 0)]
                 @ ((if r < 0 then [Nerr ''ERROR: sixlowpan_send() failed: %d''] else [])
                    @ [Set_sockstate (SF_IDLE h)])"
    by auto
  have pre: "Set_sockstate (SF_SEND h) \<notin> set (lookup_events cfg conn)"
    by (simp add: lookup_events_def)
  have post: "Set_sockstate (SF_SEND h) \<notin>
                set ((if r < 0 then [Nerr ''ERROR: sixlowpan_send() failed: %d''] else [])
                     @ [Set_sockstate (SF_IDLE h)])"
    using two by simp
  from c d l n t pre post
  show "\<exists>conn dev mac tmo post.
                  s_conn s = Some conn
                \<and> netdev_findby_ipv6addr e
                     (if CONFIG_NETDEV_MULTINIC cfg then [laddr conn, raddr conn] else [raddr conn])
                     = Some dev
                \<and> (CONFIG_NETDEV_MULTILINK cfg \<longrightarrow> d_lltype dev = NET_LL_IEEE802154 h)
                \<and> (CONFIG_NET_ICMPv6_NEIGHBOR cfg \<longrightarrow> 0 \<le> icmpv6_neighbor e (raddr conn))
                \<and> t = lookup_events cfg conn
                       @ [Set_sockstate (SF_SEND h), Call_sixlowpan_send dev buf len mac tmo]
                       @ post
                \<and> Set_sockstate (SF_SEND h) \<notin> set (lookup_events cfg conn)
                \<and> Set_sockstate (SF_SEND h) \<notin> set post"
    by blast
qed

text \<open>
  At the example socket, whose send state is idle: the function as a whole returns with
  the state idle, and lines 103 to 197 return with the state idle and with the call of
  the dispatcher right after the write of sending.
\<close>

theorem send_state_idle_after_send_witness:
  "send_idle hdrs0 sock0
   \<and> psock_6lowpan_tcp_send cfg_release hdrs0 env0 (Some sock0) [7, 7] 2 =
       Returned (- 9, sock0, [Nerr ''ERROR: Invalid socket''])
   \<and> psock_6lowpan_tcp_send_checked cfg_release hdrs0 env0 sock0 [7, 7] 2 =
       Returned (2, sock0,
         [Call_netdev_findby_ipv6addr [raddr conn0], Set_sockstate 3,
          Call_sixlowpan_send dev0 [7, 7] 2 [2] 0, Set_sockstate 0])
   \<and> (\<exists>conn dev mac tmo post.
         [Call_netdev_findby_ipv6addr [raddr conn0], Set_sockstate 3,
          Call_sixlowpan_send dev0 [7, 7] 2 [2] 0, Set_sockstate 0]
         = lookup_events cfg_release conn
           @ [Set_sockstate (SF_SEND hdrs0), Call_sixlowpan_send dev [7, 7] 2 mac tmo]
           @ post
         \<and> Set_sockstate (SF_SEND hdrs0) \<notin> set post)"
proof -
  have two: "SF_SEND hdrs0 \<noteq> SF_IDLE hdrs0"
    by (simp add: hdrs0_def)
  have idle: "send_idle hdrs0 sock0"
    by (simp add: send_idle_def hdrs0_def sock0_def)
  have whole: "psock_6lowpan_tcp_send cfg_release hdrs0 env0 (Some sock0) [7, 7] 2 =
       Returned (- 9, sock0, [Nerr ''ERROR: Invalid socket''])"
    by (simp add: psock_6lowpan_tcp_send_def ex_defs)
  have sending: "Set_sockstate (SF_SEND hdrs0) \<in>
       set [Call_netdev_findby_ipv6addr [raddr conn0], Set_sockstate 3,
            Call_sixlowpan_send dev0 [7, 7] 2 [2] 0, Set_sockstate 0]"
    by (simp add: hdrs0_def)
  from send_state_idle_after_send [OF hdrs0_idle_law two idle,
         of cfg_release env0 "[7, 7]" 2] checked_sock0 sending
  have "\<exists>conn dev mac tmo post.
         [Call_netdev_findby_ipv6addr [raddr conn0], Set_sockstate 3,
          Call_sixlowpan_send dev0 [7, 7] 2 [2] 0, Set_sockstate 0]
         = lookup_events cfg_release conn
           @ [Set_sockstate (SF_SEND hdrs0), Call_sixlowpan_send dev [7, 7] 2 mac tmo]
           @ post
         \<and> Set_sockstate (SF_SEND hdrs0) \<notin> set post"
    by blast
  with idle whole checked_sock0 show ?thesis
    by blast
qed



subsection \<open>The output of the TCP state machine\<close>

text \<open>
  C3. Stated: when the header declares TCP, \<open>sixlowpan_tcp_send\<close> skips the
  dispatcher with a warning exactly when \<open>d_len\<close> is smaller than the length of the
  two headers, and calls it otherwise. The code tests \<^verbatim>\<open>hdrlen < dev->d_len\<close>
  at line 254, the wrong way round for the warning it then logs. With headers of 40 and
  20 bytes, a buffer of 100 valid bytes is dropped with the warning of line 256, and a
  buffer of 20 valid bytes goes to the dispatcher, with the payload length \<open>20 - 60\<close>
  wrapped around in \<^verbatim>\<open>size_t\<close>.
\<close>

theorem packet_size_check_inverted:
  "sixlowpan_tcp_send cfg_release hdrs0 env0 (Some (dev0\<lparr>d_len := 100\<rparr>)) =
     Returned (dev0, [Nwarn ''WARNING: Packet to small:  Have %u need >%u''])
   \<and> sixlowpan_tcp_send cfg_release hdrs0 env0 (Some (dev0\<lparr>d_len := 20\<rparr>)) =
     Returned (dev0, [Call_sixlowpan_queue_frames (dev0\<lparr>d_len := 20\<rparr>) 60 4294967256 [2]])"
  by (simp add: sixlowpan_tcp_send_def size_sub_def ex_defs)

text \<open>
  Both buffers declare TCP; the first is not smaller than the headers and is not
  dispatched, the second is smaller and is not dropped.
\<close>

theorem packet_size_check_inverted_witness:
  "ipv6_proto hdrs0 (d_buf dev0) = IP_PROTO_TCP hdrs0
   \<and> IPv6_HDRLEN hdrs0 + TCP_HDRLEN hdrs0 \<le> 100
   \<and> sixlowpan_tcp_send cfg_release hdrs0 env0 (Some (dev0\<lparr>d_len := 100\<rparr>)) \<noteq>
       Returned (dev0, [Call_sixlowpan_queue_frames (dev0\<lparr>d_len := 100\<rparr>) 60 40 [2]])
   \<and> 20 < IPv6_HDRLEN hdrs0 + TCP_HDRLEN hdrs0
   \<and> sixlowpan_tcp_send cfg_release hdrs0 env0 (Some (dev0\<lparr>d_len := 20\<rparr>)) \<noteq>
       Returned (dev0, [Nwarn ''WARNING: Packet to small:  Have %u need >%u''])"
  using packet_size_check_inverted
  by (simp add: hdrs0_def dev0_def)

text \<open>
  C6. For every device with \<open>d_len > 0\<close>, \<open>sixlowpan_tcp_send\<close> returns and leaves
  \<open>d_len = 0\<close>, whatever the header declares, whatever the size check says and whatever
  the dispatcher returns or does to the device.
\<close>

theorem d_len_reset:
  assumes "0 < d_len d"
  shows "\<exists>d' t. sixlowpan_tcp_send cfg h e (Some d) = Returned (d', t) \<and> d_len d' = 0"
  using assms by (simp add: sixlowpan_tcp_send_def Let_def split: prod.splits)

text \<open>
  On a buffer of 60 valid bytes, with a dispatcher that fails and leaves 7 in
  \<open>d_len\<close>.
\<close>

theorem d_len_reset_witness:
  "0 < d_len (dev0\<lparr>d_len := 60\<rparr>)
   \<and> sixlowpan_queue_frames (env0\<lparr>sixlowpan_queue_frames := (\<lambda>d _ _ _. (- 5, d\<lparr>d_len := 7\<rparr>))\<rparr>)
        (dev0\<lparr>d_len := 60\<rparr>) 60 0 [2] = (- 5, dev0\<lparr>d_len := 7\<rparr>)
   \<and> (\<exists>d' t. sixlowpan_tcp_send cfg_debug hdrs0
                 (env0\<lparr>sixlowpan_queue_frames := (\<lambda>d _ _ _. (- 5, d\<lparr>d_len := 7\<rparr>))\<rparr>)
                 (Some (dev0\<lparr>d_len := 60\<rparr>)) = Returned (d', t)
              \<and> d_len d' = 0)"
proof -
  have pos: "0 < d_len (dev0\<lparr>d_len := 60\<rparr>)"
    by simp
  have "sixlowpan_queue_frames (env0\<lparr>sixlowpan_queue_frames := (\<lambda>d _ _ _. (- 5, d\<lparr>d_len := 7\<rparr>))\<rparr>)
        (dev0\<lparr>d_len := 60\<rparr>) 60 0 [2] = (- 5, dev0\<lparr>d_len := 7\<rparr>)"
    by simp
  with pos d_len_reset [OF pos] show ?thesis
    by blast
qed

text \<open>
  C9. When the header declares TCP and \<open>d_len\<close> is exactly the length of the two
  headers, \<open>sixlowpan_tcp_send\<close> does not skip: it derives the destination from the
  destination address of the header and calls \<open>sixlowpan_queue_frames\<close> with the
  payload at the end of the headers and the payload length 0; the trace holds that call
  alone, so there is no warning.
\<close>

theorem zero_payload_dispatched:
  assumes "ipv6_proto h (d_buf d) = IP_PROTO_TCP h"
      and "d_len d = IPv6_HDRLEN h + TCP_HDRLEN h"
      and "0 < d_len d"
  shows "sixlowpan_tcp_send cfg h e (Some d) =
     Returned (snd (sixlowpan_queue_frames e d (d_len d) 0
                     (sixlowpan_rimefromip e (ipv6_destipaddr h (d_buf d)))) \<lparr>d_len := 0\<rparr>,
               [Call_sixlowpan_queue_frames d (d_len d) 0
                     (sixlowpan_rimefromip e (ipv6_destipaddr h (d_buf d)))])"
  using assms by (simp add: sixlowpan_tcp_send_def Let_def size_sub_def)

theorem zero_payload_dispatched_witness:
  "ipv6_proto hdrs0 (d_buf (dev0\<lparr>d_len := 60\<rparr>)) = IP_PROTO_TCP hdrs0
   \<and> d_len (dev0\<lparr>d_len := 60\<rparr>) = IPv6_HDRLEN hdrs0 + TCP_HDRLEN hdrs0
   \<and> 0 < d_len (dev0\<lparr>d_len := 60\<rparr>)
   \<and> sixlowpan_tcp_send cfg_debug hdrs0 env0 (Some (dev0\<lparr>d_len := 60\<rparr>)) =
       Returned (dev0, [Call_sixlowpan_queue_frames (dev0\<lparr>d_len := 60\<rparr>) 60 0 [2]])"
proof -
  have tcp: "ipv6_proto hdrs0 (d_buf (dev0\<lparr>d_len := 60\<rparr>)) = IP_PROTO_TCP hdrs0"
    by (simp add: hdrs0_def dev0_def)
  have len: "d_len (dev0\<lparr>d_len := 60\<rparr>) = IPv6_HDRLEN hdrs0 + TCP_HDRLEN hdrs0"
    by (simp add: hdrs0_def)
  have pos: "0 < d_len (dev0\<lparr>d_len := 60\<rparr>)"
    by simp
  have mac: "sixlowpan_rimefromip env0 (ipv6_destipaddr hdrs0 (d_buf (dev0\<lparr>d_len := 60\<rparr>))) = [2]"
    by (simp add: ex_defs)
  have dev: "snd (sixlowpan_queue_frames env0 (dev0\<lparr>d_len := 60\<rparr>) 60 0 [2]) \<lparr>d_len := 0\<rparr> = dev0"
    by (simp add: env0_def dev0_def)
  from zero_payload_dispatched [OF tcp len pos, of cfg_debug env0] mac dev
  have "sixlowpan_tcp_send cfg_debug hdrs0 env0 (Some (dev0\<lparr>d_len := 60\<rparr>)) =
       Returned (dev0, [Call_sixlowpan_queue_frames (dev0\<lparr>d_len := 60\<rparr>) 60 0 [2]])"
    by simp
  with tcp len pos show ?thesis
    by blast
qed

text \<open>
  C8. With assertions compiled out, \<open>sixlowpan_tcp_send\<close> on a device whose
  \<open>d_len\<close> is already zero returns the device as it was, with an empty trace: no call
  of the dispatcher and no warning. The device that a completed call returns is such a
  device, so calling again on it changes nothing.
\<close>

theorem flush_of_empty_buffer_is_noop:
  assumes "\<not> CONFIG_DEBUG_ASSERTIONS cfg"
  shows "(d_len d = 0 \<longrightarrow> sixlowpan_tcp_send cfg h e (Some d) = Returned (d, []))
       \<and> (\<forall>d1 t. sixlowpan_tcp_send cfg h e (Some d) = Returned (d1, t) \<longrightarrow>
                  sixlowpan_tcp_send cfg h e (Some d1) = Returned (d1, []))"
proof (intro conjI allI impI)
  assume "d_len d = 0"
  with assms show "sixlowpan_tcp_send cfg h e (Some d) = Returned (d, [])"
    by (simp add: sixlowpan_tcp_send_def)
next
  fix d1 t
  assume "sixlowpan_tcp_send cfg h e (Some d) = Returned (d1, t)"
  then have "d_len d1 = 0"
    by (auto simp: sixlowpan_tcp_send_def Let_def split: if_splits prod.splits)
  with assms show "sixlowpan_tcp_send cfg h e (Some d1) = Returned (d1, [])"
    by (simp add: sixlowpan_tcp_send_def)
qed

theorem flush_of_empty_buffer_is_noop_witness:
  "\<not> CONFIG_DEBUG_ASSERTIONS cfg_release
   \<and> d_len dev0 = 0
   \<and> sixlowpan_tcp_send cfg_release hdrs0 env0 (Some dev0) = Returned (dev0, [])
   \<and> sixlowpan_tcp_send cfg_release hdrs0 env0 (Some (dev0\<lparr>d_len := 60\<rparr>)) =
       Returned (dev0, [Call_sixlowpan_queue_frames (dev0\<lparr>d_len := 60\<rparr>) 60 0 [2]])"
proof -
  have off: "\<not> CONFIG_DEBUG_ASSERTIONS cfg_release"
    by (simp add: cfg_release_def)
  have empty: "d_len dev0 = 0"
    by (simp add: dev0_def)
  have first: "sixlowpan_tcp_send cfg_release hdrs0 env0 (Some (dev0\<lparr>d_len := 60\<rparr>)) =
       Returned (dev0, [Call_sixlowpan_queue_frames (dev0\<lparr>d_len := 60\<rparr>) 60 0 [2]])"
    by (simp add: sixlowpan_tcp_send_def size_sub_def ex_defs)
  from flush_of_empty_buffer_is_noop [OF off, of "dev0\<lparr>d_len := 60\<rparr>" hdrs0 env0] first
  have "sixlowpan_tcp_send cfg_release hdrs0 env0 (Some dev0) = Returned (dev0, [])"
    by blast
  with off empty first show ?thesis
    by blast
qed

text \<open>
  The condition on the assertions is needed: when they are compiled in, the assertion of
  line 226 requires \<open>d_len > 0\<close> and stops the call.
\<close>

theorem flush_of_empty_buffer_is_noop_counterexample:
  "d_len dev0 = 0
   \<and> sixlowpan_tcp_send cfg_debug hdrs0 env0 (Some dev0) = Assertion_failed
   \<and> sixlowpan_tcp_send cfg_debug hdrs0 env0 (Some dev0) \<noteq> Returned (dev0, [])"
  by (simp add: sixlowpan_tcp_send_def ex_defs)

subsection \<open>The kernel heap\<close>

text \<open>
  C10. For every address, \<open>kmm_heapmember\<close> returns what \<open>mm_heapmember\<close> returns
  on the kernel heap and that address. It reads nothing else: the user heap has no part
  in the result. The function computes a value from its arguments and the kernel heap
  and does nothing besides.
\<close>

theorem kmm_heapmember_delegates:
  "kmm_heapmember mm_heapmember g mem = mm_heapmember (g_kmmheap g) mem
   \<and> kmm_heapmember mm_heapmember (g\<lparr>g_mmheap := u\<rparr>) mem = kmm_heapmember mm_heapmember g mem"
  by (simp add: kmm_heapmember_def)

section \<open>Further properties of the code as it is written\<close>

text \<open>
  The size check of line 254 as the code has it: with a header that declares TCP and
  \<open>d_len > 0\<close>, the buffer is dropped with the warning when \<open>d_len\<close> is larger than
  the length of the two headers, and is passed to \<open>sixlowpan_queue_frames\<close> when it is
  not, with the payload length computed in \<^verbatim>\<open>size_t\<close>.
\<close>

theorem size_check_as_written:
  assumes "ipv6_proto h (d_buf d) = IP_PROTO_TCP h" and "0 < d_len d"
  shows "sixlowpan_tcp_send cfg h e (Some d) =
    (if IPv6_HDRLEN h + TCP_HDRLEN h < d_len d
     then Returned (d\<lparr>d_len := 0\<rparr>, [Nwarn ''WARNING: Packet to small:  Have %u need >%u''])
     else Returned
       (snd (sixlowpan_queue_frames e d (IPv6_HDRLEN h + TCP_HDRLEN h)
               (size_sub h (d_len d) (IPv6_HDRLEN h + TCP_HDRLEN h))
               (sixlowpan_rimefromip e (ipv6_destipaddr h (d_buf d)))) \<lparr>d_len := 0\<rparr>,
        [Call_sixlowpan_queue_frames d (IPv6_HDRLEN h + TCP_HDRLEN h)
               (size_sub h (d_len d) (IPv6_HDRLEN h + TCP_HDRLEN h))
               (sixlowpan_rimefromip e (ipv6_destipaddr h (d_buf d)))]))"
  using assms by (simp add: sixlowpan_tcp_send_def Let_def)

theorem size_check_as_written_witness:
  "ipv6_proto hdrs0 (d_buf (dev0\<lparr>d_len := 61\<rparr>)) = IP_PROTO_TCP hdrs0
   \<and> 0 < d_len (dev0\<lparr>d_len := 61\<rparr>)
   \<and> sixlowpan_tcp_send cfg_debug hdrs0 env0 (Some (dev0\<lparr>d_len := 61\<rparr>)) =
       Returned (dev0, [Nwarn ''WARNING: Packet to small:  Have %u need >%u''])"
proof -
  have tcp: "ipv6_proto hdrs0 (d_buf (dev0\<lparr>d_len := 61\<rparr>)) = IP_PROTO_TCP hdrs0"
    by (simp add: hdrs0_def dev0_def)
  have pos: "0 < d_len (dev0\<lparr>d_len := 61\<rparr>)"
    by simp
  have larger: "IPv6_HDRLEN hdrs0 + TCP_HDRLEN hdrs0 < d_len (dev0\<lparr>d_len := 61\<rparr>)"
    by (simp add: hdrs0_def)
  have dev: "dev0\<lparr>d_len := 61\<rparr>\<lparr>d_len := 0\<rparr> = dev0"
    by (simp add: dev0_def)
  from size_check_as_written [OF tcp pos, of cfg_debug env0] larger dev
  have "sixlowpan_tcp_send cfg_debug hdrs0 env0 (Some (dev0\<lparr>d_len := 61\<rparr>)) =
       Returned (dev0, [Nwarn ''WARNING: Packet to small:  Have %u need >%u''])"
    by simp
  with tcp pos show ?thesis
    by blast
qed

text \<open>
  A buffer whose header does not declare TCP is dropped with one warning, and \<open>d_len\<close>
  is reset.
\<close>

theorem other_protocol_dropped:
  assumes "ipv6_proto h (d_buf d) \<noteq> IP_PROTO_TCP h" and "0 < d_len d"
  shows "sixlowpan_tcp_send cfg h e (Some d) =
    Returned (d\<lparr>d_len := 0\<rparr>, [Nwarn ''WARNING: Expected TCP protoype: %u''])"
  using assms by (simp add: sixlowpan_tcp_send_def)

theorem other_protocol_dropped_witness:
  "ipv6_proto hdrs0 (d_buf (dev0\<lparr>d_len := 48, d_buf := [96, 0, 0, 0, 0, 8, 17, 64]\<rparr>))
     \<noteq> IP_PROTO_TCP hdrs0
   \<and> sixlowpan_tcp_send cfg_debug hdrs0 env0
        (Some (dev0\<lparr>d_len := 48, d_buf := [96, 0, 0, 0, 0, 8, 17, 64]\<rparr>)) =
       Returned (dev0\<lparr>d_len := 0, d_buf := [96, 0, 0, 0, 0, 8, 17, 64]\<rparr>,
                 [Nwarn ''WARNING: Expected TCP protoype: %u''])"
proof -
  have udp: "ipv6_proto hdrs0 (d_buf (dev0\<lparr>d_len := 48, d_buf := [96, 0, 0, 0, 0, 8, 17, 64]\<rparr>))
     \<noteq> IP_PROTO_TCP hdrs0"
    by (simp add: hdrs0_def)
  have pos: "0 < d_len (dev0\<lparr>d_len := 48, d_buf := [96, 0, 0, 0, 0, 8, 17, 64]\<rparr>)"
    by simp
  from other_protocol_dropped [OF udp pos, of cfg_debug env0] udp show ?thesis
    by simp
qed

text \<open>
  Lines 105 to 109, once the check of the handle is behind: a socket that is not a stream
  socket or is not connected gets \<open>- ENOTCONN\<close>, with the socket untouched and no
  event but the log statement.
\<close>

theorem checked_not_connected:
  assumes "s_type s \<noteq> SOCK_STREAM h \<or> \<not> SS_ISCONNECTED h (s_flags s)"
  shows "psock_6lowpan_tcp_send_checked cfg h e s buf len =
           Returned (- ENOTCONN h, s, [Nerr ''ERROR: Not connected''])"
  using assms by (simp add: psock_6lowpan_tcp_send_checked_def)

theorem checked_not_connected_witness:
  "\<not> SS_ISCONNECTED hdrs0 (s_flags (sock0\<lparr>s_flags := 0\<rparr>))
   \<and> psock_6lowpan_tcp_send_checked cfg_release hdrs0 env0 (sock0\<lparr>s_flags := 0\<rparr>) [7, 7] 2 =
       Returned (- 107, sock0\<lparr>s_flags := 0\<rparr>, [Nerr ''ERROR: Not connected''])"
proof -
  have unconnected: "\<not> SS_ISCONNECTED hdrs0 (s_flags (sock0\<lparr>s_flags := 0\<rparr>))"
    by (simp add: hdrs0_def)
  then have "s_type (sock0\<lparr>s_flags := 0\<rparr>) \<noteq> SOCK_STREAM hdrs0
             \<or> \<not> SS_ISCONNECTED hdrs0 (s_flags (sock0\<lparr>s_flags := 0\<rparr>))"
    by simp
  from checked_not_connected [OF this, of cfg_release env0 "[7, 7]" 2] unconnected
  show ?thesis
    by (simp add: hdrs0_def)
qed

text \<open>
  Lines 126 to 161, once the check of the handle is behind: when
  \<open>netdev_findby_ipv6addr\<close> finds no device for a connected stream socket, the call
  returns \<open>- ENETUNREACH\<close> with the socket untouched, after the lookup and a warning and
  without a call of the dispatcher.
\<close>

theorem checked_not_routable:
  assumes "s_type s = SOCK_STREAM h" and "SS_ISCONNECTED h (s_flags s)"
      and "s_conn s = Some conn"
      and "CONFIG_NET_IPv4 cfg \<longrightarrow> domain conn = PF_INET6 h"
      and "netdev_findby_ipv6addr e
             (if CONFIG_NETDEV_MULTINIC cfg then [laddr conn, raddr conn] else [raddr conn]) = None"
  shows "psock_6lowpan_tcp_send_checked cfg h e s buf len =
           Returned (- ENETUNREACH h, s,
             [Call_netdev_findby_ipv6addr
                (if CONFIG_NETDEV_MULTINIC cfg then [laddr conn, raddr conn] else [raddr conn]),
              Nwarn (if CONFIG_NETDEV_MULTINIC cfg
                     then ''WARNING: Not routable or not IEEE802.15.4 MAC''
                     else ''WARNING: Not routable'')])"
  using assms by (simp add: psock_6lowpan_tcp_send_checked_def Let_def)

theorem checked_not_routable_witness:
  "s_type sock0 = SOCK_STREAM hdrs0
   \<and> SS_ISCONNECTED hdrs0 (s_flags sock0)
   \<and> psock_6lowpan_tcp_send_checked cfg_release hdrs0
        (env0\<lparr>netdev_findby_ipv6addr := (\<lambda>_. None)\<rparr>) sock0 [7, 7] 2 =
       Returned (- 101, sock0,
         [Call_netdev_findby_ipv6addr [raddr conn0], Nwarn ''WARNING: Not routable''])"
proof -
  have stream: "s_type sock0 = SOCK_STREAM hdrs0"
    by (simp add: sock0_def hdrs0_def)
  have connected: "SS_ISCONNECTED hdrs0 (s_flags sock0)"
    by (simp add: sock0_def hdrs0_def)
  have conn: "s_conn sock0 = Some conn0"
    by (simp add: sock0_def)
  have inet6: "CONFIG_NET_IPv4 cfg_release \<longrightarrow> domain conn0 = PF_INET6 hdrs0"
    by (simp add: cfg_release_def)
  have none: "netdev_findby_ipv6addr (env0\<lparr>netdev_findby_ipv6addr := (\<lambda>_. None)\<rparr>)
             (if CONFIG_NETDEV_MULTINIC cfg_release then [laddr conn0, raddr conn0]
              else [raddr conn0]) = None"
    by simp
  from checked_not_routable [OF stream connected conn inet6 none, of "[7, 7]" 2]
       stream connected
  show ?thesis
    by (simp add: cfg_release_def hdrs0_def)
qed

text \<open>
  Lines 163 to 197, once the check of the handle is behind: whenever the trace of a call
  that returns holds a call of \<open>sixlowpan_send\<close>, that call is on the buffer and the
  length passed in, and the value returned is its result, negative or not.
\<close>

theorem checked_returns_dispatcher_result:
  assumes "psock_6lowpan_tcp_send_checked cfg h e s buf len = Returned (r, s', t)"
      and "Call_sixlowpan_send dev b n mac tmo \<in> set t"
  shows "r = sixlowpan_send e dev b n mac tmo \<and> b = buf \<and> n = len"
  using checked_error_or_dispatch [OF assms(1)] assms(2)
  by (auto simp: lookup_events_def split: if_splits)

theorem checked_returns_dispatcher_result_witness:
  "psock_6lowpan_tcp_send_checked cfg_release hdrs0 env0 sock0 [7, 7] 2 =
     Returned (2, sock0,
       [Call_netdev_findby_ipv6addr [raddr conn0], Set_sockstate 3,
        Call_sixlowpan_send dev0 [7, 7] 2 [2] 0, Set_sockstate 0])
   \<and> 2 = sixlowpan_send env0 dev0 [7, 7] 2 [2] 0"
proof -
  have call: "Call_sixlowpan_send dev0 [7, 7] 2 [2] 0 \<in>
       set [Call_netdev_findby_ipv6addr [raddr conn0], Set_sockstate 3,
            Call_sixlowpan_send dev0 [7, 7] 2 [2] 0, Set_sockstate 0]"
    by simp
  from checked_returns_dispatcher_result [OF checked_sock0 call]
  have "2 = sixlowpan_send env0 dev0 [7, 7] 2 [2] 0"
    by simp
  with checked_sock0 show ?thesis
    by simp
qed

end
